theory Spec2Isabelle
  imports Complex_Main "HOL-Library.AList" "HOL-Library.Multiset" "HOL-Library.Word"
begin

section \<open>The hybrid memory-search engine of lliam\<close>

text \<open>
  A shallow embedding of the memory subsystem: the record store (\<open>db.ts\<close>), the vector
  utilities and the hash-based embedding provider (\<open>embeddings.ts\<close>), the hybrid searcher
  (\<open>search.ts\<close>) and the capture path (\<open>capture.ts\<close>).

  Conventions of the model.
  \<^item> JavaScript numbers that carry scores, weights and vector components are modelled as
    \<open>real\<close>: the arithmetic of the source is read as exact arithmetic, so rounding of
    IEEE-754 doubles and of \<open>Float32Array\<close> cells is not represented, and neither are the
    special values NaN and the infinities.
  \<^item> Numbers that count or index (\<open>maxResults\<close>, \<open>limit\<close>, time stamps) are \<open>int\<close>;
    row ids, dimensions and the entries of a matchinfo blob are \<open>nat\<close>.
  \<^item> A JavaScript string is a list of code units, written with the type \<open>string\<close>.
  \<^item> A thrown exception is the left injection of a sum type. The state of the store after
    a throw is not tracked.
  \<^item> What the source obtains from outside the repository is a parameter: the embedding
    provider \<open>embedder\<close>, the SHA-256 digest \<open>sha256\<close>, the evaluation of the full-text
    \<open>MATCH\<close> query by SQLite (\<open>fts\<close>), the generated UUID and the clock.
\<close>

subsection \<open>Errors\<close>

datatype error =
    NotOpened             \<comment> \<open>\<open>MemoryDatabase not opened. Call open() first.\<close>\<close>
  | DimensionMismatch nat nat  \<comment> \<open>\<open>Vector dimension mismatch: a vs b\<close>\<close>
  | SqlConstraint         \<comment> \<open>a uniqueness constraint of SQLite rejects an \<open>INSERT\<close>\<close>

subsection \<open>Schema (\<open>schema.ts\<close>)\<close>

datatype MemoryCategory = preference | fact | decision | entity | procedure | other

datatype SourceType = manual | auto_capture | import

type_synonym vec = "real list"

record MemoryRecord =
  rec_id :: string
  category :: MemoryCategory
  content :: string
  embedding :: "vec option"
  embeddingModel :: "string option"
  embeddingDims :: "nat option"
  sourceType :: SourceType
  sourceSession :: "string option"
  sourceMessageIndex :: "int option"
  confidence :: real
  tags :: "string list"
  createdAt :: int
  updatedAt :: int
  lastAccessedAt :: int
  accessCount :: int

record CreateMemoryInput =
  c_content :: string
  c_category :: "MemoryCategory option"
  c_embedding :: "vec option"
  c_embeddingModel :: "string option"
  c_sourceType :: "SourceType option"
  c_sourceSession :: "string option"
  c_sourceMessageIndex :: "int option"
  c_confidence :: "real option"
  c_tags :: "string list option"

record UpdateMemoryInput =
  u_content :: "string option"
  u_category :: "MemoryCategory option"
  u_embedding :: "vec option"
  u_embeddingModel :: "string option"
  u_confidence :: "real option"
  u_tags :: "string list option"

datatype matchType = Vector | Keyword | Hybrid

record MemorySearchResult =
  memory :: MemoryRecord
  score :: real
  matchType :: matchType

subsection \<open>The store (\<open>MemoryDatabase\<close>)\<close>

text \<open>
  The SQLite database holds the table \<open>memories\<close>, whose rows are kept with their rowid in
  insertion order, and the full-text table \<open>memories_fts\<close> of pairs (rowid, content).
  \<open>encodeEmbedding\<close> and \<open>decodeEmbedding\<close> copy the cells of a \<open>Float32Array\<close> to and from
  a blob; a stored embedding is modelled by the vector itself.
\<close>

record SqlDb =
  memories :: "(nat \<times> MemoryRecord) list"
  memories_fts :: "(nat \<times> string) list"

record MemoryDatabase =
  db :: "SqlDb option"
  dirty :: bool

definition requireDb :: "MemoryDatabase \<Rightarrow> error + SqlDb" where
  "requireDb s = (case db s of None \<Rightarrow> Inl NotOpened | Some d \<Rightarrow> Inr d)"

definition has_id :: "string \<Rightarrow> nat \<times> MemoryRecord \<Rightarrow> bool" where
  \<comment> \<open>the SQL condition \<open>WHERE id = ?\<close>\<close>
  "has_id i row = (rec_id (snd row) = i)"

definition next_rowid :: "SqlDb \<Rightarrow> nat" where
  \<comment> \<open>the rowid SQLite gives to a new row: one more than the largest in use\<close>
  "next_rowid d = Suc (fold max (map fst (memories d)) 0)"

definition orElse :: "'a option \<Rightarrow> 'a \<Rightarrow> 'a" where
  \<comment> \<open>the operator \<open>??\<close>\<close>
  "orElse v d = (case v of None \<Rightarrow> d | Some x \<Rightarrow> x)"

definition createMemory ::
  "MemoryDatabase \<Rightarrow> CreateMemoryInput \<Rightarrow> string \<Rightarrow> int \<Rightarrow> error + (string \<times> MemoryDatabase)" where
  \<comment> \<open>\<open>uuid\<close> is what \<open>randomUUID()\<close> returns, \<open>now\<close> what \<open>Date.now()\<close> returns\<close>
  "createMemory s input uuid now =
    (case requireDb s of Inl e \<Rightarrow> Inl e | Inr d \<Rightarrow>
       let r = \<lparr> rec_id = uuid,
                 category = orElse (c_category input) other,
                 content = c_content input,
                 embedding = c_embedding input,
                 embeddingModel = c_embeddingModel input,
                 embeddingDims = map_option length (c_embedding input),
                 sourceType = orElse (c_sourceType input) manual,
                 sourceSession = c_sourceSession input,
                 sourceMessageIndex = c_sourceMessageIndex input,
                 confidence = orElse (c_confidence input) 1,
                 tags = orElse (c_tags input) [],
                 createdAt = now, updatedAt = now, lastAccessedAt = now,
                 accessCount = 0 \<rparr>;
           rowid = next_rowid d
       in if uuid \<in> set (map (rec_id \<circ> snd) (memories d)) then Inl SqlConstraint
          else if rowid \<in> set (map fst (memories_fts d)) then Inl SqlConstraint
          else Inr (uuid,
                 s\<lparr> db := Some (d\<lparr> memories := memories d @ [(rowid, r)],
                                    memories_fts := memories_fts d @ [(rowid, c_content input)] \<rparr>),
                    dirty := True \<rparr>))"

definition getMemory ::
  "MemoryDatabase \<Rightarrow> string \<Rightarrow> int \<Rightarrow> error + (MemoryRecord option \<times> MemoryDatabase)" where
  "getMemory s i now =
    (case requireDb s of Inl e \<Rightarrow> Inl e | Inr d \<Rightarrow>
       if length (filter (has_id i) (memories d)) = 0 then Inr (None, s)
       else
         let touch = (\<lambda>row. if has_id i row
                        then (fst row, (snd row)\<lparr> lastAccessedAt := now,
                                                  accessCount := accessCount (snd row) + 1 \<rparr>)
                        else row);
             d' = d\<lparr> memories := map touch (memories d) \<rparr>
         in Inr (map_option snd (find (has_id i) (memories d')),
                 s\<lparr> db := Some d', dirty := True \<rparr>))"

definition update_sets :: "UpdateMemoryInput \<Rightarrow> (MemoryRecord \<Rightarrow> MemoryRecord) list" where
  \<comment> \<open>the list \<open>sets\<close>: one assignment for every field of the input that is defined\<close>
  "update_sets input =
     (case u_content input of None \<Rightarrow> [] | Some c \<Rightarrow> [\<lambda>r. r\<lparr> content := c \<rparr>]) @
     (case u_category input of None \<Rightarrow> [] | Some c \<Rightarrow> [\<lambda>r. r\<lparr> category := c \<rparr>]) @
     (case u_embedding input of None \<Rightarrow> []
        | Some e \<Rightarrow> [\<lambda>r. r\<lparr> embedding := Some e \<rparr>, \<lambda>r. r\<lparr> embeddingDims := Some (length e) \<rparr>]) @
     (case u_embeddingModel input of None \<Rightarrow> [] | Some m \<Rightarrow> [\<lambda>r. r\<lparr> embeddingModel := Some m \<rparr>]) @
     (case u_confidence input of None \<Rightarrow> [] | Some c \<Rightarrow> [\<lambda>r. r\<lparr> confidence := c \<rparr>]) @
     (case u_tags input of None \<Rightarrow> [] | Some t \<Rightarrow> [\<lambda>r. r\<lparr> tags := t \<rparr>])"

definition updateMemory ::
  "MemoryDatabase \<Rightarrow> string \<Rightarrow> UpdateMemoryInput \<Rightarrow> int \<Rightarrow> error + (bool \<times> MemoryDatabase)" where
  "updateMemory s i input now =
    (case requireDb s of Inl e \<Rightarrow> Inl e | Inr d \<Rightarrow>
       let sets = update_sets input in
       if length sets = 0 then Inr (False, s)
       else
         let sets' = sets @ [\<lambda>r. r\<lparr> updatedAt := now \<rparr>];
             assign = (\<lambda>row. if has_id i row then (fst row, fold (\<lambda>f r. f r) sets' (snd row)) else row);
             d1 = d\<lparr> memories := map assign (memories d) \<rparr>;
             d2 = (case u_content input of None \<Rightarrow> d1
                   | Some c \<Rightarrow>
                      (case find (has_id i) (memories d1) of None \<Rightarrow> d1
                       | Some row \<Rightarrow>
                           d1\<lparr> memories_fts :=
                                 filter (\<lambda>e. fst e \<noteq> fst row) (memories_fts d1) @ [(fst row, c)] \<rparr>))
         in Inr (True, s\<lparr> db := Some d2, dirty := True \<rparr>))"

definition deleteMemory :: "MemoryDatabase \<Rightarrow> string \<Rightarrow> error + (bool \<times> MemoryDatabase)" where
  "deleteMemory s i =
    (case requireDb s of Inl e \<Rightarrow> Inl e | Inr d \<Rightarrow>
       (case find (has_id i) (memories d) of
          None \<Rightarrow> Inr (False, s)
        | Some row \<Rightarrow>
            Inr (True,
                 s\<lparr> db := Some (d\<lparr> memories_fts := filter (\<lambda>e. fst e \<noteq> fst row) (memories_fts d),
                                    memories := filter (\<lambda>r. \<not> has_id i r) (memories d) \<rparr>),
                    dirty := True \<rparr>)))"

definition getAllEmbeddings :: "MemoryDatabase \<Rightarrow> error + (string \<times> vec) list" where
  "getAllEmbeddings s =
    (case requireDb s of Inl e \<Rightarrow> Inl e | Inr d \<Rightarrow>
       Inr (List.map_filter (\<lambda>row. map_option (Pair (rec_id (snd row))) (embedding (snd row)))
              (memories d)))"

definition getMemoriesByIds :: "MemoryDatabase \<Rightarrow> string list \<Rightarrow> error + MemoryRecord list" where
  "getMemoriesByIds s ids =
    (if length ids = 0 then Inr []
     else case requireDb s of Inl e \<Rightarrow> Inl e | Inr d \<Rightarrow>
       Inr (map snd (filter (\<lambda>row. rec_id (snd row) \<in> set ids) (memories d))))"

subsection \<open>Strings\<close>

text \<open>
  Code units are restricted to the range of \<open>char\<close> (below 256, read as Latin-1).
  \<open>is_ws\<close> is the class \<open>\s\<close> of a regular expression on that range; \<open>toLowerCase\<close>
  maps the upper-case letters of that range to their lower-case forms.
\<close>

definition is_ws :: "char \<Rightarrow> bool" where
  "is_ws ch = (ch \<in> set [CHR 0x09, CHR 0x0A, CHR 0x0B, CHR 0x0C, CHR 0x0D, CHR 0x20, CHR 0xA0])"

definition lower_unit :: "char \<Rightarrow> char" where
  "lower_unit ch =
     (let n = (of_char ch :: nat)
      in if (65 \<le> n \<and> n \<le> 90) \<or> (192 \<le> n \<and> n \<le> 222 \<and> n \<noteq> 215)
         then char_of (n + 32) else ch)"

definition toLowerCase :: "string \<Rightarrow> string" where
  "toLowerCase str = map lower_unit str"

definition trim :: "string \<Rightarrow> string" where
  "trim str = rev (dropWhile is_ws (rev (dropWhile is_ws str)))"

function split_from :: "string \<Rightarrow> string \<Rightarrow> string list" where
  "split_from cur [] = [cur]"
| "split_from cur (ch # rest) =
     (if is_ws ch then cur # split_from [] (dropWhile is_ws rest)
      else split_from (cur @ [ch]) rest)"
  by pat_completeness auto
termination
  by (relation "measure (\<lambda>(cur, rest). length rest)")
     (auto simp: le_imp_less_Suc length_dropWhile_le)

definition split_ws :: "string \<Rightarrow> string list" where
  \<comment> \<open>\<open>str.split(/\s+/)\<close>: the pieces between maximal runs of white space; a string that
      begins or ends with white space yields an empty piece there, the empty string yields
      one empty piece\<close>
  "split_ws str = split_from [] str"

fun join :: "string \<Rightarrow> string list \<Rightarrow> string" where
  "join sep [] = []"
| "join sep [x] = x"
| "join sep (x # y # ys) = x @ sep @ join sep (y # ys)"

subsection \<open>Vector utilities and the hash-based provider (\<open>embeddings.ts\<close>)\<close>

definition cosineSimilarity :: "vec \<Rightarrow> vec \<Rightarrow> error + real" where
  "cosineSimilarity a b =
     (if length a \<noteq> length b then Inl (DimensionMismatch (length a) (length b))
      else Inr (fold (\<lambda>i dot. dot + a ! i * b ! i) [0..<length a] 0))"

definition normalizeVector :: "vec \<Rightarrow> vec" where
  "normalizeVector v =
     (let magnitude = sqrt (fold (\<lambda>i m. m + v ! i * v ! i) [0..<length v] 0)
      in if magnitude > 0 then map (\<lambda>x. x / magnitude) v else v)"

text \<open>
  A digest of \<open>createHash("sha256")\<close> is a buffer of 32 bytes, given here by the function
  from an index to the byte at that index.
\<close>

type_synonym digest = "nat \<Rightarrow> 8 word"

definition readUInt32LE :: "digest \<Rightarrow> nat \<Rightarrow> nat" where
  "readUInt32LE h off =
     unat (h off) + 2 ^ 8 * unat (h (off + 1)) + 2 ^ 16 * unat (h (off + 2))
       + 2 ^ 24 * unat (h (off + 3))"

definition readInt32LE :: "digest \<Rightarrow> nat \<Rightarrow> int" where
  "readInt32LE h off =
     (let u = int (readUInt32LE h off) in if u \<ge> 2 ^ 31 then u - 2 ^ 32 else u)"

definition trigrams :: "string \<Rightarrow> string list" where
  \<comment> \<open>\<open>for (i = 0; i <= normalized.length - 3; i++) substring(i, i + 3)\<close>\<close>
  "trigrams normalized = map (\<lambda>i. take 3 (drop i normalized)) [0..<length normalized - 2]"

definition addFeature :: "(string \<Rightarrow> digest) \<Rightarrow> nat \<Rightarrow> string \<Rightarrow> vec \<Rightarrow> vec" where
  \<comment> \<open>with \<open>dimensions = 0\<close> the index is NaN and the assignment leaves the array as it is\<close>
  "addFeature sha256 dimensions feature v =
     (let hash = sha256 feature;
          pos = readUInt32LE hash 0 mod dimensions;
          val = (real_of_int (readInt32LE hash 4) / 2147483647) * 0.1
      in if dimensions = 0 then v else v[pos := v ! pos + val])"

definition hashToVector :: "(string \<Rightarrow> digest) \<Rightarrow> nat \<Rightarrow> string \<Rightarrow> vec" where
  "hashToVector sha256 dimensions text =
     (let v0 = replicate dimensions 0;
          normalized = trim (toLowerCase text)
      in if length normalized = 0 then v0
         else
           let words = filter (\<lambda>w. length w > 0) (split_ws normalized);
               features = trigrams normalized @ words;
               v1 = fold (addFeature sha256 dimensions) features v0;
               globalHash = sha256 normalized;
               v2 = map (\<lambda>i. v1 ! i + (real (unat (globalHash (i mod 32))) - 128) / 2560)
                      [0..<dimensions];
               magnitude = sqrt (fold (\<lambda>i m. m + v2 ! i * v2 ! i) [0..<dimensions] 0)
           in if magnitude > 0 then map (\<lambda>x. x / magnitude) v2 else v2)"

definition simpleHashEmbed :: "(string \<Rightarrow> digest) \<Rightarrow> nat \<Rightarrow> string \<Rightarrow> vec option" where
  \<comment> \<open>\<open>SimpleHashEmbeddingProvider.embed\<close>, which never throws\<close>
  "simpleHashEmbed sha256 dimensions text = Some (hashToVector sha256 dimensions text)"

text \<open>
  The Euclidean length of a vector, computed as the repository's test of the provider
  computes it.
\<close>

definition magnitude :: "vec \<Rightarrow> real" where
  "magnitude v = sqrt (\<Sum>i<length v. v ! i * v ! i)"

subsection \<open>Keyword search (\<open>MemoryDatabase.keywordSearch\<close>)\<close>

text \<open>
  A matchinfo blob of SQLite is a sequence of unsigned 32-bit integers; it is given as
  that sequence. \<open>js_at\<close> reads an array cell, \<open>None\<close> being \<open>undefined\<close>; \<open>or_num\<close> is the
  operator \<open>||\<close> on such a cell.
\<close>

definition js_at :: "nat list \<Rightarrow> nat \<Rightarrow> nat option" where
  "js_at xs k = (if k < length xs then Some (xs ! k) else None)"

definition or_num :: "nat option \<Rightarrow> nat \<Rightarrow> nat" where
  "or_num v d = (case v of None \<Rightarrow> d | Some x \<Rightarrow> if x = 0 then d else x)"

definition bm25_term :: "nat list \<Rightarrow> nat \<Rightarrow> nat \<Rightarrow> nat \<Rightarrow> nat \<Rightarrow> nat \<Rightarrow> real" where
  \<comment> \<open>the body of the inner loop: what phrase \<open>i\<close> and column \<open>j\<close> add to the score\<close>
  "bm25_term info p c n i j =
     (let k1 = 1.2; b = 0.75;
          avgTokens = or_num (js_at info (3 + (i * c + j))) 1;
          tokens = or_num (js_at info (3 + p * c + (i * c + j))) 1;
          xBaseOffset = 3 + 2 * p * c + (i * c + j) * 3;
          hitsInRow = or_num (js_at info xBaseOffset) 0;
          docsWithHit = or_num (js_at info (xBaseOffset + 2)) 0
      in if hitsInRow = 0 \<or> docsWithHit = 0 then 0
         else
           let idf = ln ((real n - real docsWithHit + 0.5) / (real docsWithHit + 0.5) + 1);
               tf = (real hitsInRow * (k1 + 1))
                      / (real hitsInRow + k1 * (1 - b + b * (real tokens / real avgTokens)))
           in idf * tf)"

definition computeBM25Score :: "nat list \<Rightarrow> real" where
  \<comment> \<open>\<open>c\<close> and \<open>n\<close> are \<open>undefined\<close> on a blob of fewer than three integers: the inner loop
      then does not run (\<open>c\<close>) or skips every term (\<open>n\<close>), so that \<open>n\<close> is never used\<close>
  "computeBM25Score info =
     (if length info = 0 then 0
      else
        let p = info ! 0;
            c = js_at info 1;
            n = js_at info 2
        in if n = Some 0 \<or> p = 0 then 0
           else
             let score = fold (\<lambda>i sc. fold (\<lambda>j sc'. sc' + bm25_term info p (orElse c 0) (orElse n 0) i j)
                                         [0..<orElse c 0] sc)
                           [0..<p] 0
             in min 1 (score / (real p * 5)))"

definition keywordTokens :: "string \<Rightarrow> string" where
  "keywordTokens query =
     join '' ''
       (map (\<lambda>t. [CHR 0x22] @ filter (\<lambda>ch. ch \<noteq> CHR 0x22) t @ [CHR 0x22])
          (filter (\<lambda>t. length t > 1) (split_ws (toLowerCase query))))"

type_synonym fts_engine = "SqlDb \<Rightarrow> string \<Rightarrow> int \<Rightarrow> (string \<times> nat list) list option"
  \<comment> \<open>the rows (id, matchinfo) of the \<open>MATCH\<close> query for a match expression and a limit;
      \<open>None\<close> when SQLite rejects the expression\<close>

definition keywordSearch ::
  "fts_engine \<Rightarrow> MemoryDatabase \<Rightarrow> string \<Rightarrow> int \<Rightarrow> error + (string \<times> real) list" where
  "keywordSearch fts s query limit =
    (case requireDb s of Inl e \<Rightarrow> Inl e | Inr d \<Rightarrow>
       let tokens = keywordTokens query in
       if tokens = [] then Inr []
       else (case fts d tokens limit of
               None \<Rightarrow> Inr []
             | Some rows \<Rightarrow> Inr (map (\<lambda>row. (fst row, computeBM25Score (snd row))) rows)))"

subsection \<open>The hybrid searcher (\<open>search.ts\<close>)\<close>

record SearchOptions =
  maxResults :: int
  minScore :: real
  vectorSearch_on :: bool       \<comment> \<open>the option \<open>vectorSearch\<close>\<close>
  keywordSearch_on :: bool      \<comment> \<open>the option \<open>keywordSearch\<close>\<close>
  vectorWeight :: real
  keywordWeight :: real
  category_filter :: string     \<comment> \<open>the option \<open>category\<close>, which \<open>search\<close> never reads\<close>
  candidateMultiplier :: int

definition DEFAULT_OPTIONS :: SearchOptions where
  "DEFAULT_OPTIONS =
     \<lparr> maxResults = 6, minScore = 0.3, vectorSearch_on = True, keywordSearch_on = True,
       vectorWeight = 0.7, keywordWeight = 0.3, category_filter = [],
       candidateMultiplier = 4 \<rparr>"

definition slice0 :: "int \<Rightarrow> 'a list \<Rightarrow> 'a list" where
  \<comment> \<open>\<open>xs.slice(0, e)\<close>; a negative end counts from the end of the array\<close>
  "slice0 e xs = (if e < 0 then take (nat (int (length xs) + e)) xs else take (nat e) xs)"

definition sortDesc :: "('a \<Rightarrow> real) \<Rightarrow> 'a list \<Rightarrow> 'a list" where
  \<comment> \<open>\<open>xs.sort((a, b) => b.score - a.score)\<close>; the sort of an array is stable\<close>
  "sortDesc sc xs = sort_key (\<lambda>r. - sc r) xs"

type_synonym scored = "string \<times> real"
  \<comment> \<open>\<open>{id, score}\<close>; the match type of a vector or keyword result is a constant\<close>

type_synonym merged = "string \<times> real \<times> matchType"
  \<comment> \<open>\<open>{id, score, matchType}\<close>\<close>

definition m_id :: "merged \<Rightarrow> string" where "m_id r = fst r"
definition m_score :: "merged \<Rightarrow> real" where "m_score r = fst (snd r)"
definition m_type :: "merged \<Rightarrow> matchType" where "m_type r = snd (snd r)"

definition scoreEmbedding :: "vec \<Rightarrow> string \<times> vec \<Rightarrow> scored" where
  \<comment> \<open>the callback of \<open>allEmbeddings.map\<close> in \<open>vectorSearch\<close>\<close>
  "scoreEmbedding queryVec row =
     (case cosineSimilarity queryVec (snd row) of
        Inr sim \<Rightarrow> (fst row, (sim + 1) / 2)
      | Inl e \<Rightarrow> (fst row, 0))"

definition vectorSearch ::
  "(string \<Rightarrow> vec option) \<Rightarrow> MemoryDatabase \<Rightarrow> string \<Rightarrow> int \<Rightarrow> error + scored list" where
  \<comment> \<open>\<open>embedder query = None\<close>: the provider throws\<close>
  "vectorSearch embedder s query limit =
    (case embedder query of
       None \<Rightarrow> Inr []
     | Some queryVec \<Rightarrow>
        (case getAllEmbeddings s of Inl e \<Rightarrow> Inl e | Inr allEmbeddings \<Rightarrow>
           if length allEmbeddings = 0 then Inr []
           else
             let scored = filter (\<lambda>r. snd r > 0) (map (scoreEmbedding queryVec) allEmbeddings)
             in Inr (slice0 limit (sortDesc snd scored))))"

definition keywordSearchInternal ::
  "fts_engine \<Rightarrow> MemoryDatabase \<Rightarrow> string \<Rightarrow> int \<Rightarrow> error + scored list" where
  "keywordSearchInternal fts s query limit =
    (case keywordSearch fts s query limit of Inl e \<Rightarrow> Inl e | Inr rawResults \<Rightarrow>
       (case rawResults of
          [] \<Rightarrow> Inr []
        | r # rs \<Rightarrow>
            let maxScore = fold max (map snd rs) (snd r);
                normalizer = (if maxScore > 0 then maxScore else 1)
            in Inr (map (\<lambda>r. (fst r, snd r / normalizer)) rawResults)))"

text \<open>
  \<open>byId\<close> is a \<open>Map\<close> from an id to \<open>{vectorScore, keywordScore}\<close>. A \<open>Map\<close> iterates in
  the order in which its keys were first set, which is what \<open>AList.update\<close> keeps.
\<close>

definition setVector :: "scored \<Rightarrow> (string \<times> real \<times> real) list \<Rightarrow> (string \<times> real \<times> real) list" where
  "setVector r byId = AList.update (fst r) (snd r, 0) byId"

definition setKeyword :: "scored \<Rightarrow> (string \<times> real \<times> real) list \<Rightarrow> (string \<times> real \<times> real) list" where
  "setKeyword r byId =
     (case map_of byId (fst r) of
        Some existing \<Rightarrow> AList.update (fst r) (fst existing, snd r) byId
      | None \<Rightarrow> AList.update (fst r) (0, snd r) byId)"


definition finalResult :: "SearchOptions \<Rightarrow> string \<times> real \<times> real \<Rightarrow> merged" where
  "finalResult options entry =
     (let vectorScore = fst (snd entry);
          keywordScore = snd (snd entry);
          finalScore = vectorWeight options * vectorScore + keywordWeight options * keywordScore;
          mt = (if vectorScore > 0 \<and> keywordScore > 0 then Hybrid
                else if vectorScore > 0 then Vector
                else Keyword)
      in (fst entry, finalScore, mt))"

definition mergeResults :: "scored list \<Rightarrow> scored list \<Rightarrow> SearchOptions \<Rightarrow> merged list" where
  "mergeResults vectorResults keywordResults options =
     (let byId = fold setKeyword keywordResults (fold setVector vectorResults [])
      in sortDesc m_score (map (finalResult options) byId))"

definition search ::
  "(string \<Rightarrow> vec option) \<Rightarrow> fts_engine \<Rightarrow> MemoryDatabase \<Rightarrow> string \<Rightarrow> SearchOptions
     \<Rightarrow> error + MemorySearchResult list" where
  \<comment> \<open>\<open>options\<close> is the record after the defaults have been filled in\<close>
  "search embedder fts s query options =
    (let candidateLimit = maxResults options * candidateMultiplier options in
     case (if vectorSearch_on options then vectorSearch embedder s query candidateLimit
           else Inr [])
     of Inl e \<Rightarrow> Inl e | Inr vectorResults \<Rightarrow>
      (case (if keywordSearch_on options then keywordSearchInternal fts s query candidateLimit
             else Inr [])
       of Inl e \<Rightarrow> Inl e | Inr keywordResults \<Rightarrow>
        (let merged = mergeResults vectorResults keywordResults options;
             topIds = map m_id (slice0 (maxResults options)
                                  (filter (\<lambda>r. m_score r \<ge> minScore options) merged))
         in if length topIds = 0 then Inr []
            else
              (case getMemoriesByIds s topIds of Inl e \<Rightarrow> Inl e | Inr mems \<Rightarrow>
                 (let memoryMap = map_of (rev (map (\<lambda>m. (rec_id m, m)) mems))
                  in Inr (List.map_filter
                            (\<lambda>r. map_option
                                   (\<lambda>m. \<lparr> memory = m, score = m_score r, matchType = m_type r \<rparr>)
                                   (memoryMap (m_id r)))
                            (slice0 (maxResults options)
                               (filter (\<lambda>r. m_score r \<ge> minScore options
                                           \<and> memoryMap (m_id r) \<noteq> None)
                                  merged))))))))"

subsection \<open>Capture (\<open>capture.ts\<close>)\<close>

record ExtractedMemory =
  e_content :: string
  e_category :: MemoryCategory
  e_confidence :: real
  e_tags :: "string list"

record CaptureConfig =
  enabled :: bool
  deduplicationThreshold :: real
  minConfidence :: real
  maxPerTurn :: int
  categories :: "MemoryCategory list"

definition DEFAULT_CAPTURE_CONFIG :: CaptureConfig where
  "DEFAULT_CAPTURE_CONFIG =
     \<lparr> enabled = True, deduplicationThreshold = 0.90, minConfidence = 0.6, maxPerTurn = 5,
       categories = [preference, fact, decision, entity, procedure, other] \<rparr>"

fun findDuplicate :: "vec \<Rightarrow> real \<Rightarrow> (string \<times> vec) list \<Rightarrow> bool" where
  \<comment> \<open>the loop over \<open>allEmbeddings\<close>: \<open>True\<close> when it leaves through \<open>return null\<close>\<close>
  "findDuplicate emb threshold [] = False"
| "findDuplicate emb threshold (existing # rest) =
     (case cosineSimilarity emb (snd existing) of
        Inr similarity \<Rightarrow>
          (let normalizedSim = (similarity + 1) / 2
           in if normalizedSim \<ge> threshold then True
              else findDuplicate emb threshold rest)
      | Inl e \<Rightarrow> findDuplicate emb threshold rest)"

definition storeWithDeduplication ::
  "(string \<Rightarrow> vec option) \<Rightarrow> string \<Rightarrow> CaptureConfig \<Rightarrow> MemoryDatabase \<Rightarrow> ExtractedMemory
     \<Rightarrow> string \<Rightarrow> string \<Rightarrow> int \<Rightarrow> error + (string option \<times> MemoryDatabase)" where
  \<comment> \<open>\<open>modelName\<close> is \<open>embedder.modelName\<close>; \<open>uuid\<close> and \<open>now\<close> are what \<open>createMemory\<close> draws\<close>
  "storeWithDeduplication embedder modelName config s mem sessionId uuid now =
    (let stored = (\<lambda>res. case res of Inl e \<Rightarrow> Inl e | Inr (i, s') \<Rightarrow> Inr (Some i, s'))
     in case embedder (e_content mem) of
       None \<Rightarrow>
         stored (createMemory s
           \<lparr> c_content = e_content mem, c_category = Some (e_category mem),
             c_embedding = None, c_embeddingModel = None,
             c_sourceType = Some auto_capture, c_sourceSession = Some sessionId,
             c_sourceMessageIndex = None,
             c_confidence = Some (e_confidence mem), c_tags = Some (e_tags mem) \<rparr> uuid now)
     | Some emb \<Rightarrow>
        (case getAllEmbeddings s of Inl e \<Rightarrow> Inl e | Inr allEmbeddings \<Rightarrow>
           if findDuplicate emb (deduplicationThreshold config) allEmbeddings then Inr (None, s)
           else
             stored (createMemory s
               \<lparr> c_content = e_content mem, c_category = Some (e_category mem),
                 c_embedding = Some emb, c_embeddingModel = Some modelName,
                 c_sourceType = Some auto_capture, c_sourceSession = Some sessionId,
                 c_sourceMessageIndex = None,
                 c_confidence = Some (e_confidence mem), c_tags = Some (e_tags mem) \<rparr> uuid now)))"

subsection \<open>Sample data\<close>

text \<open>Small stores and collaborators on which the theorems below are exercised.\<close>

definition emptyStore :: MemoryDatabase where
  "emptyStore = \<lparr> db = Some \<lparr> memories = [], memories_fts = [] \<rparr>, dirty = False \<rparr>"

definition sampleRecord :: "string \<Rightarrow> string \<Rightarrow> vec option \<Rightarrow> MemoryRecord" where
  "sampleRecord i txt emb =
     \<lparr> rec_id = i, category = fact, content = txt, embedding = emb,
       embeddingModel = map_option (\<lambda>e. ''simple-hash-v1'') emb,
       embeddingDims = map_option length emb,
       sourceType = manual, sourceSession = None, sourceMessageIndex = None,
       confidence = 1, tags = [], createdAt = 0, updatedAt = 0, lastAccessedAt = 0,
       accessCount = 0 \<rparr>"

definition sampleDb :: SqlDb where
  "sampleDb = \<lparr> memories = [(1, sampleRecord ''m1'' ''hello world'' (Some [1, 0]))],
                 memories_fts = [(1, ''hello world'')] \<rparr>"

definition sampleStore :: MemoryDatabase where
  "sampleStore = \<lparr> db = Some sampleDb, dirty = False \<rparr>"

definition matchAll :: fts_engine where
  \<comment> \<open>a full-text engine that reports every row, each with an empty matchinfo\<close>
  "matchAll d expr limit = Some (map (\<lambda>row. (rec_id (snd row), [])) (memories d))"


definition mixedStore :: MemoryDatabase where
  "mixedStore =
     \<lparr> db = Some \<lparr> memories = [(1, sampleRecord ''m1'' ''hello world'' (Some [1, 0])),
                                 (2, sampleRecord ''m2'' ''three cells'' (Some [1, 0, 0])),
                                 (3, sampleRecord ''m3'' ''no vector'' None),
                                 (4, sampleRecord ''m4'' ''upwards'' (Some [0, 1]))],
                    memories_fts = [(1, ''hello world''), (2, ''three cells''),
                                    (3, ''no vector''), (4, ''upwards'')] \<rparr>,
       dirty = False \<rparr>"

definition constEmbedder :: "vec \<Rightarrow> string \<Rightarrow> vec option" where
  "constEmbedder v txt = Some v"

definition planeStore :: MemoryDatabase where
  "planeStore =
     \<lparr> db = Some \<lparr> memories = [(1, sampleRecord ''m4'' ''upwards'' (Some [0, 1])),
                                 (2, sampleRecord ''m5'' ''backwards'' (Some [-1, 0])),
                                 (3, sampleRecord ''m1'' ''hello world'' (Some [1, 0]))],
                    memories_fts = [(1, ''upwards''), (2, ''backwards''), (3, ''hello world'')] \<rparr>,
       dirty = False \<rparr>"

definition sampleMemory :: ExtractedMemory where
  "sampleMemory = \<lparr> e_content = ''hello world'', e_category = fact, e_confidence = 0.9,
                     e_tags = [] \<rparr>"

definition zeroDigest :: "string \<Rightarrow> digest" where
  \<comment> \<open>a digest function all of whose bytes are 0\<close>
  "zeroDigest feature k = 0"

definition blankMemory :: ExtractedMemory where
  "blankMemory = \<lparr> e_content = '' '', e_category = fact, e_confidence = 0.9, e_tags = [] \<rparr>"

definition capturedRecord :: "string \<Rightarrow> string \<Rightarrow> vec \<Rightarrow> int \<Rightarrow> MemoryRecord" where
  "capturedRecord i txt emb t =
     \<lparr> rec_id = i, category = fact, content = txt, embedding = Some emb,
       embeddingModel = Some ''simple-hash-v1'', embeddingDims = Some (length emb),
       sourceType = auto_capture, sourceSession = Some ''session'', sourceMessageIndex = None,
       confidence = 0.9, tags = [], createdAt = t, updatedAt = t, lastAccessedAt = t,
       accessCount = 0 \<rparr>"

definition capturedOnce :: "string \<Rightarrow> vec \<Rightarrow> MemoryDatabase" where
  "capturedOnce txt emb =
     \<lparr> db = Some \<lparr> memories = [(1, capturedRecord ''id1'' txt emb 10)],
                    memories_fts = [(1, txt)] \<rparr>, dirty = True \<rparr>"

definition capturedTwice :: "string \<Rightarrow> vec \<Rightarrow> MemoryDatabase" where
  "capturedTwice txt emb =
     \<lparr> db = Some \<lparr> memories = [(1, capturedRecord ''id1'' txt emb 10),
                                 (2, capturedRecord ''id2'' txt emb 20)],
                    memories_fts = [(1, txt), (2, txt)] \<rparr>, dirty = True \<rparr>"

section \<open>Properties\<close>

subsection \<open>Reads, updates and deletes of an id that is not stored\<close>

lemma filter_has_id_empty:
  "i \<notin> set (map (rec_id \<circ> snd) rows) \<Longrightarrow> filter (has_id i) rows = []"
  by (induction rows) (auto simp: has_id_def)

text \<open>
  C10. On an opened store, \<open>getMemory\<close> of an id that no row carries returns \<open>null\<close> and
  the store after the call is the store before it: no access counter or access time has
  moved and the dirty flag is as it was.
\<close>

theorem getMemory_missing_id:
  assumes "db s = Some d" and "i \<notin> set (map (rec_id \<circ> snd) (memories d))"
  shows "getMemory s i now = Inr (None, s)"
  using assms by (simp add: getMemory_def requireDb_def filter_has_id_empty)

theorem getMemory_missing_id_witness:
  "db sampleStore = Some sampleDb
   \<and> ''m2'' \<notin> set (map (rec_id \<circ> snd) (memories sampleDb))
   \<and> getMemory sampleStore ''m2'' 5 = Inr (None, sampleStore)"
  using getMemory_missing_id [of sampleStore sampleDb "''m2''" 5]
  by (simp add: sampleStore_def sampleDb_def sampleRecord_def)

text \<open>
  C3. On the empty opened store, \<open>getMemory\<close> of a missing id returns \<open>null\<close> and
  \<open>deleteMemory\<close> returns \<open>false\<close>, both leaving the store as it was, but \<open>updateMemory\<close>
  with a content to set returns \<open>true\<close> and marks the store dirty, although no row was
  changed.
\<close>

theorem missing_id_update_returns_true:
  "getMemory emptyStore ''non-existent'' 0 = Inr (None, emptyStore)
   \<and> deleteMemory emptyStore ''non-existent'' = Inr (False, emptyStore)
   \<and> updateMemory emptyStore ''non-existent''
      \<lparr> u_content = Some ''new'', u_category = None, u_embedding = None,
        u_embeddingModel = None, u_confidence = None, u_tags = None \<rparr> 0
    = Inr (True, emptyStore\<lparr> dirty := True \<rparr>)"
  by (simp add: updateMemory_def getMemory_def deleteMemory_def requireDb_def emptyStore_def
      update_sets_def Let_def)

subsection \<open>Keyword search on queries without a token of two or more code units\<close>






subsection \<open>Normalization of keyword scores\<close>








subsection \<open>Merging vector and keyword results\<close>

lemma map_of_fold_setVector:
  "map_of (fold setVector vrs m) i =
     (case map_of (rev vrs) i of Some v \<Rightarrow> Some (v, 0) | None \<Rightarrow> map_of m i)"
proof (induction vrs arbitrary: m)
  case Nil
  then show ?case by simp
next
  case (Cons r vrs)
  have "map_of (fold setVector (r # vrs) m) i =
          (case map_of (rev vrs) i of Some v \<Rightarrow> Some (v, 0) | None \<Rightarrow> map_of (setVector r m) i)"
    by (simp add: Cons.IH)
  also have "\<dots> = (case map_of (rev (r # vrs)) i of Some v \<Rightarrow> Some (v, 0) | None \<Rightarrow> map_of m i)"
    by (simp add: setVector_def AList.update_conv' map_add_def split: option.splits)
  finally show ?case .
qed

lemma distinct_fold_setVector:
  "distinct (map fst m) \<Longrightarrow> distinct (map fst (fold setVector vrs m))"
  by (induction vrs arbitrary: m) (simp_all add: setVector_def AList.distinct_update)

lemma map_of_setKeyword:
  "map_of (setKeyword r m) =
     (map_of m)(fst r \<mapsto> (case map_of m (fst r) of Some e \<Rightarrow> (fst e, snd r) | None \<Rightarrow> (0, snd r)))"
  by (simp add: setKeyword_def AList.update_conv' split: option.splits)

lemma distinct_setKeyword:
  "distinct (map fst m) \<Longrightarrow> distinct (map fst (setKeyword r m))"
  by (simp add: setKeyword_def AList.distinct_update split: option.splits)

lemma map_of_fold_setKeyword:
  "map_of (fold setKeyword krs m) i =
     (case map_of (rev krs) i of
        Some k \<Rightarrow> Some (case map_of m i of Some e \<Rightarrow> (fst e, k) | None \<Rightarrow> (0, k))
      | None \<Rightarrow> map_of m i)"
proof (induction krs arbitrary: m)
  case Nil
  then show ?case by simp
next
  case (Cons r krs)
  show ?case
    by (simp add: Cons.IH map_of_setKeyword map_add_def split: option.splits)
qed

lemma distinct_fold_setKeyword:
  "distinct (map fst m) \<Longrightarrow> distinct (map fst (fold setKeyword krs m))"
  by (induction krs arbitrary: m) (simp_all add: distinct_setKeyword)

lemma map_of_rev_distinct:
  "distinct (map fst xs) \<Longrightarrow> map_of (rev xs) = map_of xs"
proof (induction xs)
  case Nil
  then show ?case by simp
next
  case (Cons x xs)
  then have "fst x \<notin> dom (map_of xs)" by (auto simp: dom_map_of_conv_image_fst)
  with Cons show ?case
    by (cases x) (auto simp: map_add_def fun_eq_iff split: option.splits)
qed


lemma set_mergeResults:
  "set (mergeResults vrs krs opts) =
     finalResult opts ` set (fold setKeyword krs (fold setVector vrs []))"
  by (simp add: mergeResults_def sortDesc_def Let_def)

lemma distinct_mergeResults: "distinct (map m_id (mergeResults vrs krs opts))"
proof -
  let ?byId = "fold setKeyword krs (fold setVector vrs [])"
  have d: "distinct (map fst ?byId)"
    by (intro distinct_fold_setKeyword distinct_fold_setVector) simp
  have "m_id \<circ> finalResult opts = fst"
    by (simp add: fun_eq_iff m_id_def finalResult_def Let_def)
  then have "map m_id (map (finalResult opts) ?byId) = map fst ?byId"
    by (simp only: map_map)
  with d have "distinct (map m_id (map (finalResult opts) ?byId))"
    by (simp only:)
  then have "distinct (map (finalResult opts) ?byId)
             \<and> inj_on m_id (set (map (finalResult opts) ?byId))"
    by (simp only: distinct_map)
  then have "distinct (sortDesc m_score (map (finalResult opts) ?byId))
             \<and> inj_on m_id (set (sortDesc m_score (map (finalResult opts) ?byId)))"
    by (simp add: sortDesc_def)
  then show ?thesis
    unfolding mergeResults_def Let_def by (simp only: distinct_map)
qed

lemma byId_lookup:
  assumes "distinct (map fst vrs)" and "distinct (map fst krs)"
  shows "map_of (fold setKeyword krs (fold setVector vrs [])) i =
     (case map_of krs i of
        Some k \<Rightarrow> Some (case map_of vrs i of Some v \<Rightarrow> (v, k) | None \<Rightarrow> (0, k))
      | None \<Rightarrow> (case map_of vrs i of Some v \<Rightarrow> Some (v, 0) | None \<Rightarrow> None))"
  by (simp add: map_of_fold_setKeyword map_of_fold_setVector map_of_rev_distinct assms
      split: option.splits)

lemma mergeResults_member:
  assumes "map_of (fold setKeyword krs (fold setVector vrs [])) i = Some (v, k)"
  shows "finalResult opts (i, v, k) \<in> set (mergeResults vrs krs opts)"
  using map_of_SomeD [OF assms] by (auto simp: set_mergeResults)

text \<open>
  C1 (as amended). When no id occurs twice in the vector results nor in the keyword
  results: an id in both, with positive scores \<open>v\<close> and \<open>k\<close>, is merged with match type
  hybrid and score \<open>vectorWeight * v + keywordWeight * k\<close>; an id in the vector results
  only, with positive score \<open>v\<close>, is merged with match type vector and score
  \<open>vectorWeight * v\<close>; an id in the keyword results only, with score \<open>k\<close>, is merged with
  match type keyword and score \<open>keywordWeight * k\<close>; and every id is merged once.
\<close>

theorem mergeResults_scores:
  assumes "distinct (map fst vrs)" and "distinct (map fst krs)"
  shows "((i, v) \<in> set vrs \<and> (i, k) \<in> set krs \<and> 0 < v \<and> 0 < k \<longrightarrow>
            (i, vectorWeight opts * v + keywordWeight opts * k, Hybrid)
              \<in> set (mergeResults vrs krs opts))
       \<and> ((i, v) \<in> set vrs \<and> i \<notin> fst ` set krs \<and> 0 < v \<longrightarrow>
            (i, vectorWeight opts * v, Vector) \<in> set (mergeResults vrs krs opts))
       \<and> (i \<notin> fst ` set vrs \<and> (i, k) \<in> set krs \<longrightarrow>
            (i, keywordWeight opts * k, Keyword) \<in> set (mergeResults vrs krs opts))
       \<and> distinct (map m_id (mergeResults vrs krs opts))"
proof (intro conjI impI)
  assume h: "(i, v) \<in> set vrs \<and> (i, k) \<in> set krs \<and> 0 < v \<and> 0 < k"
  then have "map_of vrs i = Some v" "map_of krs i = Some k"
    using assms by simp_all
  then have "map_of (fold setKeyword krs (fold setVector vrs [])) i = Some (v, k)"
    by (simp add: byId_lookup assms)
  from mergeResults_member [OF this, of opts] h
  show "(i, vectorWeight opts * v + keywordWeight opts * k, Hybrid)
          \<in> set (mergeResults vrs krs opts)"
    by (simp add: finalResult_def Let_def)
next
  assume h: "(i, v) \<in> set vrs \<and> i \<notin> fst ` set krs \<and> 0 < v"
  then have "map_of vrs i = Some v" "map_of krs i = None"
    using assms by (simp_all add: map_of_eq_None_iff)
  then have "map_of (fold setKeyword krs (fold setVector vrs [])) i = Some (v, 0)"
    by (simp add: byId_lookup assms)
  from mergeResults_member [OF this, of opts] h
  show "(i, vectorWeight opts * v, Vector) \<in> set (mergeResults vrs krs opts)"
    by (simp add: finalResult_def Let_def)
next
  assume h: "i \<notin> fst ` set vrs \<and> (i, k) \<in> set krs"
  then have "map_of vrs i = None" "map_of krs i = Some k"
    using assms by (simp_all add: map_of_eq_None_iff)
  then have "map_of (fold setKeyword krs (fold setVector vrs [])) i = Some (0, k)"
    by (simp add: byId_lookup assms)
  from mergeResults_member [OF this, of opts] h
  show "(i, keywordWeight opts * k, Keyword) \<in> set (mergeResults vrs krs opts)"
    by (simp add: finalResult_def Let_def)
next
  show "distinct (map m_id (mergeResults vrs krs opts))"
    by (rule distinct_mergeResults)
qed

theorem mergeResults_scores_witness:
  "distinct (map fst [(''a'', 0.8 :: real), (''b'', 0.5)])
   \<and> distinct (map fst [(''b'', 1 :: real), (''c'', 0.5)])
   \<and> (''b'', 0.65, Hybrid)
        \<in> set (mergeResults [(''a'', 0.8), (''b'', 0.5)] [(''b'', 1), (''c'', 0.5)] DEFAULT_OPTIONS)
   \<and> (''a'', 0.56, Vector)
        \<in> set (mergeResults [(''a'', 0.8), (''b'', 0.5)] [(''b'', 1), (''c'', 0.5)] DEFAULT_OPTIONS)
   \<and> (''c'', 0.15, Keyword)
        \<in> set (mergeResults [(''a'', 0.8), (''b'', 0.5)] [(''b'', 1), (''c'', 0.5)] DEFAULT_OPTIONS)
   \<and> distinct (map m_id
        (mergeResults [(''a'', 0.8), (''b'', 0.5)] [(''b'', 1), (''c'', 0.5)] DEFAULT_OPTIONS))"
  using
    mergeResults_scores [of "[(''a'', 0.8), (''b'', 0.5)]" "[(''b'', 1), (''c'', 0.5)]"
      "''b''" "0.5" 1 DEFAULT_OPTIONS]
    mergeResults_scores [of "[(''a'', 0.8), (''b'', 0.5)]" "[(''b'', 1), (''c'', 0.5)]"
      "''a''" "0.8" 0 DEFAULT_OPTIONS]
    mergeResults_scores [of "[(''a'', 0.8), (''b'', 0.5)]" "[(''b'', 1), (''c'', 0.5)]"
      "''c''" 0 "0.5" DEFAULT_OPTIONS]
  by (simp add: DEFAULT_OPTIONS_def)

text \<open>
  C1 (as stated) fails: with the default weights, the id \<open>a\<close>, which only the vector
  results hold, with score 0.8, is merged with score 0.56; and the id \<open>b\<close>, which both
  hold, the keyword score being 0, is merged with match type vector.
\<close>

theorem mergeResults_single_source_is_weighted:
  "mergeResults [(''a'', 0.8), (''b'', 0.5)] [(''b'', 0)] DEFAULT_OPTIONS
     = [(''a'', 0.56, Vector), (''b'', 0.35, Vector)]"
  by (simp add: mergeResults_def setVector_def setKeyword_def finalResult_def sortDesc_def
      m_score_def DEFAULT_OPTIONS_def Let_def)

subsection \<open>Vector search\<close>

lemma dot_fold:
  "fold (\<lambda>i dot. dot + a ! i * b ! i) [0..<n] (0::real) = (\<Sum>i<n. a ! i * b ! i)"
  by (induction n) simp_all

lemma cosineSimilarity_same_length:
  "length a = length b \<Longrightarrow> cosineSimilarity a b = Inr (\<Sum>i<length a. a ! i * b ! i)"
  by (simp add: cosineSimilarity_def dot_fold)

lemma cosineSimilarity_mismatch:
  "length a \<noteq> length b \<Longrightarrow> cosineSimilarity a b = Inl (DimensionMismatch (length a) (length b))"
  by (simp add: cosineSimilarity_def)

lemma scoreEmbedding_same_length:
  "length (snd p) = length qv \<Longrightarrow>
     scoreEmbedding qv p = (fst p, ((\<Sum>i<length qv. qv ! i * snd p ! i) + 1) / 2)"
  by (simp add: scoreEmbedding_def cosineSimilarity_same_length)

lemma scoreEmbedding_mismatch:
  "length (snd p) \<noteq> length qv \<Longrightarrow> scoreEmbedding qv p = (fst p, 0)"
  by (simp add: scoreEmbedding_def cosineSimilarity_def)

lemma vectorSearch_unfold:
  assumes "getAllEmbeddings s = Inr pairs" and "embedder query = Some qv"
  shows "vectorSearch embedder s query limit =
           Inr (slice0 limit (sortDesc snd (filter (\<lambda>r. 0 < snd r) (map (scoreEmbedding qv) pairs))))"
  using assms by (cases pairs) (simp_all add: vectorSearch_def slice0_def sortDesc_def Let_def)

lemma sorted_desc_sortDesc: "sorted_wrt (\<lambda>a b. sc b \<le> sc a) (sortDesc sc xs)"
proof -
  have "sorted (map (\<lambda>r. - sc r) (sortDesc sc xs))"
    unfolding sortDesc_def by (rule sorted_sort_key)
  then show ?thesis
    by (simp add: sorted_wrt_map)
qed

lemma planeStore_embeddings:
  "getAllEmbeddings planeStore = Inr [(''m4'', [0, 1]), (''m5'', [-1, 0]), (''m1'', [1, 0])]"
  by (simp add: getAllEmbeddings_def requireDb_def planeStore_def sampleRecord_def)

lemma mixedStore_embeddings:
  "getAllEmbeddings mixedStore = Inr [(''m1'', [1, 0]), (''m2'', [1, 0, 0]), (''m4'', [0, 1])]"
  by (simp add: getAllEmbeddings_def requireDb_def mixedStore_def sampleRecord_def)

lemma upt_2: "[0..<2] = [0, 1]" by (simp add: upt_rec)


text \<open>
  C4. When the provider embeds the query as \<open>qv\<close>, every stored embedding has the length
  of \<open>qv\<close> and the limit is not negative, \<open>vectorSearch\<close> returns the first \<open>limit\<close>
  entries of a list that is sorted by score, highest first, and that holds, as often as
  they occur, the pairs of an id and the score \<open>(sim + 1) / 2\<close> of its embedding whose
  score is positive; \<open>sim\<close> is the dot product of \<open>qv\<close> and the stored embedding.
\<close>

theorem vectorSearch_pipeline:
  assumes "getAllEmbeddings s = Inr pairs"
    and "embedder query = Some qv"
    and "\<forall>p \<in> set pairs. length (snd p) = length qv"
    and "0 \<le> limit"
  shows "\<exists>xs. vectorSearch embedder s query limit = Inr (take (nat limit) xs)
           \<and> sorted_wrt (\<lambda>a b. snd b \<le> snd a) xs
           \<and> mset xs = mset (filter (\<lambda>r. 0 < snd r)
                  (map (\<lambda>p. (fst p, ((\<Sum>i<length qv. qv ! i * snd p ! i) + 1) / 2)) pairs))"
proof -
  let ?scored = "filter (\<lambda>r. 0 < snd r) (map (scoreEmbedding qv) pairs)"
  have same: "map (scoreEmbedding qv) pairs
                = map (\<lambda>p. (fst p, ((\<Sum>i<length qv. qv ! i * snd p ! i) + 1) / 2)) pairs"
    using assms(3) by (intro map_cong) (simp_all add: scoreEmbedding_same_length)
  have "vectorSearch embedder s query limit = Inr (take (nat limit) (sortDesc snd ?scored))"
    using assms(4)
    by (simp add: vectorSearch_unfold [where embedder = embedder and query = query, OF assms(1,2)]
        slice0_def)
  moreover have "sorted_wrt (\<lambda>a b. snd b \<le> snd a) (sortDesc snd ?scored)"
    by (rule sorted_desc_sortDesc)
  moreover have "mset (sortDesc snd ?scored) = mset ?scored"
    by (simp add: sortDesc_def)
  ultimately show ?thesis
    unfolding same by blast
qed


theorem vectorSearch_pipeline_witness:
  "getAllEmbeddings planeStore = Inr [(''m4'', [0, 1]), (''m5'', [-1, 0]), (''m1'', [1, 0])]
   \<and> constEmbedder [1, 0] ''hello'' = Some [1, 0]
   \<and> map (length \<circ> snd) [(''m4'', [0, 1 :: real]), (''m5'', [-1, 0]), (''m1'', [1, 0])] = [2, 2, 2]
   \<and> (0 :: int) \<le> 1
   \<and> (\<exists>xs. vectorSearch (constEmbedder [1, 0]) planeStore ''hello'' 1 = Inr (take (nat 1) xs)
         \<and> sorted_wrt (\<lambda>a b. snd b \<le> snd a) xs
         \<and> mset xs = mset [(''m4'', 1 / 2), (''m1'', 1)])
   \<and> vectorSearch (constEmbedder [1, 0]) planeStore ''hello'' 1 = Inr [(''m1'', 1)]"
proof -
  have run: "vectorSearch (constEmbedder [1, 0]) planeStore ''hello'' 1 = Inr [(''m1'', 1)]"
    by (simp add: vectorSearch_def planeStore_embeddings constEmbedder_def scoreEmbedding_def
        cosineSimilarity_def upt_2 sortDesc_def slice0_def Let_def)
  show ?thesis
    using vectorSearch_pipeline [where embedder = "constEmbedder [1, 0]" and query = "''hello''"
        and qv = "[1, 0]" and s = planeStore and limit = 1, OF planeStore_embeddings] run
    by (simp add: planeStore_embeddings constEmbedder_def lessThan_Suc numeral_2_eq_2)
qed


lemma filter_scored_same_length:
  "filter (\<lambda>r. 0 < snd r) (map (scoreEmbedding qv) pairs)
     = filter (\<lambda>r. 0 < snd r)
         (map (scoreEmbedding qv) (filter (\<lambda>p. length (snd p) = length qv) pairs))"
  by (induction pairs) (simp_all add: scoreEmbedding_mismatch)

lemma findDuplicate_iff:
  "findDuplicate emb thr pairs \<longleftrightarrow>
     (\<exists>p \<in> set pairs. length (snd p) = length emb
         \<and> thr \<le> ((\<Sum>i<length emb. emb ! i * snd p ! i) + 1) / 2)"
proof (induction pairs)
  case Nil
  then show ?case by simp
next
  case (Cons p pairs)
  show ?case
  proof (cases "length (snd p) = length emb")
    case True
    then show ?thesis
      using Cons.IH by (auto simp: cosineSimilarity_same_length Let_def)
  next
    case False
    then have "cosineSimilarity emb (snd p) = Inl (DimensionMismatch (length emb) (length (snd p)))"
      by (simp add: cosineSimilarity_def)
    then show ?thesis
      using Cons.IH False by auto
  qed
qed

lemma getMemoriesByIds_opened:
  "db s = Some d \<Longrightarrow>
     getMemoriesByIds s ids =
       Inr (if length ids = 0 then []
            else map snd (filter (\<lambda>row. rec_id (snd row) \<in> set ids) (memories d)))"
  by (simp add: getMemoriesByIds_def requireDb_def)

lemma vectorSearch_returns:
  assumes "db s = Some d"
  shows "\<exists>vrs. vectorSearch embedder s query limit = Inr vrs"
proof -
  have "\<exists>pairs. getAllEmbeddings s = Inr pairs"
    using assms by (simp add: getAllEmbeddings_def requireDb_def)
  then show ?thesis
    by (auto simp: vectorSearch_def Let_def split: option.splits)
qed

lemma keywordSearchInternal_returns:
  assumes "db s = Some d"
  shows "\<exists>krs. keywordSearchInternal fts s query limit = Inr krs"
proof -
  have "\<exists>raw. keywordSearch fts s query limit = Inr raw"
    using assms by (auto simp: keywordSearch_def requireDb_def Let_def split: option.splits)
  then show ?thesis
    by (auto simp: keywordSearchInternal_def Let_def split: list.splits)
qed

lemma search_returns:
  assumes "db s = Some d"
  shows "\<exists>results. search embedder fts s query options = Inr results"
proof -
  let ?lim = "maxResults options * candidateMultiplier options"
  obtain vrs where v: "(if vectorSearch_on options then vectorSearch embedder s query ?lim
                        else Inr []) = Inr vrs"
    using vectorSearch_returns [OF assms, of embedder query ?lim] by (cases "vectorSearch_on options") auto
  obtain krs where k: "(if keywordSearch_on options
                        then keywordSearchInternal fts s query ?lim else Inr []) = Inr krs"
    using keywordSearchInternal_returns [OF assms, of fts query ?lim]
    by (cases "keywordSearch_on options") auto
  show ?thesis
    unfolding search_def Let_def v k getMemoriesByIds_opened [OF assms]
    by (simp split: if_splits)
qed

lemma getAllEmbeddings_opened:
  "getAllEmbeddings s = Inr pairs \<Longrightarrow> \<exists>d. db s = Some d"
  by (auto simp: getAllEmbeddings_def requireDb_def split: option.splits)

lemma createMemory_no_mismatch: "createMemory s input uuid now \<noteq> Inl (DimensionMismatch a b)"
  by (auto simp: createMemory_def requireDb_def Let_def split: option.splits)

lemma storeWithDeduplication_unfold:
  assumes "getAllEmbeddings s = Inr pairs" and "embedder (e_content mem) = Some emb"
  shows "storeWithDeduplication embedder modelName config s mem sessionId uuid now =
           (if findDuplicate emb (deduplicationThreshold config) pairs then Inr (None, s)
            else case createMemory s
               \<lparr> c_content = e_content mem, c_category = Some (e_category mem),
                 c_embedding = Some emb, c_embeddingModel = Some modelName,
                 c_sourceType = Some auto_capture, c_sourceSession = Some sessionId,
                 c_sourceMessageIndex = None,
                 c_confidence = Some (e_confidence mem), c_tags = Some (e_tags mem) \<rparr> uuid now
              of Inl e \<Rightarrow> Inl e | Inr (i, s') \<Rightarrow> Inr (Some i, s'))"
  using assms by (simp add: storeWithDeduplication_def Let_def)


text \<open>
  C9. When the provider embeds the query and the candidate, no stored embedding of
  another length makes \<open>vectorSearch\<close>, \<open>search\<close> or \<open>storeWithDeduplication\<close> fail with
  a dimension mismatch: \<open>vectorSearch\<close> and \<open>search\<close> return. In \<open>vectorSearch\<close> such a
  row is scored 0, and the result is the one computed from the rows of the query's length
  alone. In \<open>storeWithDeduplication\<close> the candidate is rejected exactly when a stored
  embedding of the candidate's length reaches the threshold, whatever the embeddings of
  other lengths are.
\<close>

theorem dimension_mismatch_is_skipped:
  assumes "getAllEmbeddings s = Inr pairs"
    and "embedder query = Some qv"
    and "embedder (e_content mem) = Some emb"
  shows "(\<forall>p \<in> set pairs. length (snd p) \<noteq> length qv \<longrightarrow> scoreEmbedding qv p = (fst p, 0))
       \<and> vectorSearch embedder s query limit
           = Inr (slice0 limit (sortDesc snd (filter (\<lambda>r. 0 < snd r)
                   (map (scoreEmbedding qv) (filter (\<lambda>p. length (snd p) = length qv) pairs)))))
       \<and> (\<exists>results. search embedder fts s query options = Inr results)
       \<and> storeWithDeduplication embedder modelName config s mem sessionId uuid now
           \<noteq> Inl (DimensionMismatch a b)
       \<and> (storeWithDeduplication embedder modelName config s mem sessionId uuid now = Inr (None, s)
            \<longleftrightarrow> (\<exists>p \<in> set pairs. length (snd p) = length emb
                   \<and> deduplicationThreshold config
                       \<le> ((\<Sum>i<length emb. emb ! i * snd p ! i) + 1) / 2))"
proof (intro conjI)
  show "\<forall>p \<in> set pairs. length (snd p) \<noteq> length qv \<longrightarrow> scoreEmbedding qv p = (fst p, 0)"
    by (simp add: scoreEmbedding_mismatch)
next
  show "vectorSearch embedder s query limit
           = Inr (slice0 limit (sortDesc snd (filter (\<lambda>r. 0 < snd r)
                   (map (scoreEmbedding qv) (filter (\<lambda>p. length (snd p) = length qv) pairs)))))"
    unfolding vectorSearch_unfold [where embedder = embedder and query = query, OF assms(1,2)]
    by (subst filter_scored_same_length) (rule refl)
next
  from getAllEmbeddings_opened [OF assms(1)] obtain d where "db s = Some d" by blast
  then show "\<exists>results. search embedder fts s query options = Inr results"
    by (rule search_returns)
next
  show "storeWithDeduplication embedder modelName config s mem sessionId uuid now
           \<noteq> Inl (DimensionMismatch a b)"
    unfolding storeWithDeduplication_unfold
      [where embedder = embedder and mem = mem, OF assms(1,3)]
    using createMemory_no_mismatch
    by (auto split: sum.splits)
next
  show "storeWithDeduplication embedder modelName config s mem sessionId uuid now = Inr (None, s)
            \<longleftrightarrow> (\<exists>p \<in> set pairs. length (snd p) = length emb
                   \<and> deduplicationThreshold config
                       \<le> ((\<Sum>i<length emb. emb ! i * snd p ! i) + 1) / 2)"
    unfolding storeWithDeduplication_unfold
      [where embedder = embedder and mem = mem, OF assms(1,3)]
    by (auto simp: findDuplicate_iff split: sum.splits)
qed

theorem dimension_mismatch_is_skipped_witness:
  "getAllEmbeddings mixedStore = Inr [(''m1'', [1, 0]), (''m2'', [1, 0, 0]), (''m4'', [0, 1])]
   \<and> constEmbedder [1, 0] ''hello'' = Some [1, 0]
   \<and> constEmbedder [1, 0] (e_content sampleMemory) = Some [1, 0]
   \<and> scoreEmbedding [1, 0] (''m2'', [1, 0, 0]) = (''m2'', 0)
   \<and> vectorSearch (constEmbedder [1, 0]) mixedStore ''hello'' 24
        = Inr [(''m1'', 1), (''m4'', 1 / 2)]
   \<and> (\<exists>results. search (constEmbedder [1, 0]) matchAll mixedStore ''hello'' DEFAULT_OPTIONS
          = Inr results)
   \<and> storeWithDeduplication (constEmbedder [1, 0]) ''simple-hash-v1'' DEFAULT_CAPTURE_CONFIG
        mixedStore sampleMemory ''session'' ''m9'' 7 \<noteq> Inl (DimensionMismatch 2 3)
   \<and> storeWithDeduplication (constEmbedder [1, 0]) ''simple-hash-v1'' DEFAULT_CAPTURE_CONFIG
        mixedStore sampleMemory ''session'' ''m9'' 7 = Inr (None, mixedStore)"
  using dimension_mismatch_is_skipped [where embedder = "constEmbedder [1, 0]"
      and query = "''hello''" and qv = "[1, 0]" and s = mixedStore and limit = 24
      and mem = sampleMemory and emb = "[1, 0]" and modelName = "''simple-hash-v1''"
      and config = DEFAULT_CAPTURE_CONFIG and sessionId = "''session''" and uuid = "''m9''"
      and now = 7 and a = 2 and b = 3 and fts = matchAll and options = DEFAULT_OPTIONS,
      OF mixedStore_embeddings]
  by (simp add: mixedStore_embeddings constEmbedder_def scoreEmbedding_def cosineSimilarity_def
      upt_2 sortDesc_def slice0_def DEFAULT_CAPTURE_CONFIG_def lessThan_Suc numeral_2_eq_2)

subsection \<open>The hash-based provider\<close>



lemma hashToVector_blank:
  "length (trim (toLowerCase text)) = 0 \<Longrightarrow> hashToVector sha dims text = replicate dims 0"
  by (simp add: hashToVector_def Let_def)



lemma blank_normalized: "trim (toLowerCase '' '') = []"
  by code_simp








subsection \<open>Deduplication on capture\<close>

lemma createMemory_embeddings:
  assumes "getAllEmbeddings s = Inr pairs"
    and "createMemory s input uuid now = Inr (i, s1)"
    and "c_embedding input = Some emb"
  shows "getAllEmbeddings s1 = Inr (pairs @ [(uuid, emb)])"
  using assms
  by (auto simp: getAllEmbeddings_def createMemory_def requireDb_def Let_def List.map_filter_def
      split: option.splits if_splits)

lemma createMemory_rows:
  assumes "createMemory s input uuid now = Inr (i, s1)"
  shows "\<exists>d d1 r. db s = Some d \<and> db s1 = Some d1 \<and> memories d1 = memories d @ [r]
           \<and> rec_id (snd r) = i \<and> i = uuid"
  using assms
  by (auto simp: createMemory_def requireDb_def Let_def split: option.splits if_splits)

text \<open>
  C5 (as amended). For a candidate that the provider embeds as \<open>emb\<close>: if a stored
  embedding of the length of \<open>emb\<close> has a remapped similarity \<open>(sim + 1) / 2\<close> to \<open>emb\<close>
  that reaches the threshold, the candidate is rejected, no id is returned and the store
  is unchanged; and if the remapped similarity of \<open>emb\<close> to itself reaches the threshold
  (as it does for a vector of magnitude 1 and a threshold of at most 1), a capture that
  stored the candidate added exactly one row, and a second capture of the same content
  returns no id and leaves the store unchanged.
\<close>

theorem storeWithDeduplication_rejects:
  assumes "getAllEmbeddings s = Inr pairs"
    and "embedder (e_content mem) = Some emb"
  shows "((\<exists>p \<in> set pairs. length (snd p) = length emb
             \<and> deduplicationThreshold config \<le> ((\<Sum>i<length emb. emb ! i * snd p ! i) + 1) / 2)
          \<longrightarrow> storeWithDeduplication embedder modelName config s mem sessionId uuid now
                = Inr (None, s))
       \<and> (deduplicationThreshold config \<le> ((\<Sum>i<length emb. emb ! i * emb ! i) + 1) / 2
          \<and> storeWithDeduplication embedder modelName config s mem sessionId uuid now
                = Inr (Some i, s1)
          \<longrightarrow> storeWithDeduplication embedder modelName config s1 mem sessionId' uuid' now'
                = Inr (None, s1)
              \<and> (\<exists>d d1 r. db s = Some d \<and> db s1 = Some d1 \<and> memories d1 = memories d @ [r]
                    \<and> rec_id (snd r) = i))"
proof (intro conjI impI)
  assume "\<exists>p \<in> set pairs. length (snd p) = length emb
             \<and> deduplicationThreshold config \<le> ((\<Sum>i<length emb. emb ! i * snd p ! i) + 1) / 2"
  then have "findDuplicate emb (deduplicationThreshold config) pairs"
    by (simp only: findDuplicate_iff)
  then show "storeWithDeduplication embedder modelName config s mem sessionId uuid now
                = Inr (None, s)"
    by (simp add: storeWithDeduplication_unfold
        [where embedder = embedder and mem = mem, OF assms])
next
  assume h: "deduplicationThreshold config \<le> ((\<Sum>i<length emb. emb ! i * emb ! i) + 1) / 2
          \<and> storeWithDeduplication embedder modelName config s mem sessionId uuid now
                = Inr (Some i, s1)"
  let ?input = "\<lparr> c_content = e_content mem, c_category = Some (e_category mem),
                 c_embedding = Some emb, c_embeddingModel = Some modelName,
                 c_sourceType = Some auto_capture, c_sourceSession = Some sessionId,
                 c_sourceMessageIndex = None,
                 c_confidence = Some (e_confidence mem), c_tags = Some (e_tags mem) \<rparr>"
  from h have created: "createMemory s ?input uuid now = Inr (i, s1)"
    unfolding storeWithDeduplication_unfold
      [where embedder = embedder and mem = mem, OF assms]
    by (auto split: if_splits sum.splits)
  have emb1: "getAllEmbeddings s1 = Inr (pairs @ [(uuid, emb)])"
    by (rule createMemory_embeddings [OF assms(1) created]) simp
  have "findDuplicate emb (deduplicationThreshold config) (pairs @ [(uuid, emb)])"
    using h by (auto simp: findDuplicate_iff)
  then show "storeWithDeduplication embedder modelName config s1 mem sessionId' uuid' now'
                = Inr (None, s1)"
    by (simp add: storeWithDeduplication_unfold
        [where embedder = embedder and mem = mem, OF emb1 assms(2)])
  from createMemory_rows [OF created]
  show "\<exists>d d1 r. db s = Some d \<and> db s1 = Some d1 \<and> memories d1 = memories d @ [r]
          \<and> rec_id (snd r) = i"
    by blast
qed

lemma emptyStore_embeddings: "getAllEmbeddings emptyStore = Inr []"
  by (simp add: getAllEmbeddings_def requireDb_def emptyStore_def)

lemma capturedOnce_embeddings: "getAllEmbeddings (capturedOnce txt emb) = Inr [(''id1'', emb)]"
  by (simp add: getAllEmbeddings_def requireDb_def capturedOnce_def capturedRecord_def)

lemma first_capture:
  assumes "embedder (e_content sampleMemory) = Some emb"
  shows "storeWithDeduplication embedder ''simple-hash-v1'' DEFAULT_CAPTURE_CONFIG emptyStore
       sampleMemory ''session'' ''id1'' 10
     = Inr (Some ''id1'', capturedOnce ''hello world'' emb)"
  unfolding storeWithDeduplication_unfold
    [where embedder = embedder and mem = sampleMemory, OF emptyStore_embeddings assms]
  by (simp add: createMemory_def requireDb_def emptyStore_def next_rowid_def capturedOnce_def
      capturedRecord_def sampleMemory_def orElse_def Let_def)

theorem storeWithDeduplication_rejects_witness:
  "getAllEmbeddings mixedStore = Inr [(''m1'', [1, 0]), (''m2'', [1, 0, 0]), (''m4'', [0, 1])]
   \<and> constEmbedder [1, 0] (e_content sampleMemory) = Some [1, 0]
   \<and> storeWithDeduplication (constEmbedder [1, 0]) ''simple-hash-v1'' DEFAULT_CAPTURE_CONFIG
        mixedStore sampleMemory ''session'' ''m9'' 7 = Inr (None, mixedStore)
   \<and> getAllEmbeddings emptyStore = Inr []
   \<and> deduplicationThreshold DEFAULT_CAPTURE_CONFIG \<le> 1
   \<and> storeWithDeduplication (constEmbedder [1, 0]) ''simple-hash-v1'' DEFAULT_CAPTURE_CONFIG
        emptyStore sampleMemory ''session'' ''id1'' 10
        = Inr (Some ''id1'', capturedOnce ''hello world'' [1, 0])
   \<and> storeWithDeduplication (constEmbedder [1, 0]) ''simple-hash-v1'' DEFAULT_CAPTURE_CONFIG
        (capturedOnce ''hello world'' [1, 0]) sampleMemory ''session'' ''id2'' 20
        = Inr (None, capturedOnce ''hello world'' [1, 0])"
proof -
  have e: "constEmbedder [1, 0] (e_content sampleMemory) = Some [1, 0]"
    by (simp add: constEmbedder_def)
  show ?thesis
    using
      storeWithDeduplication_rejects [where embedder = "constEmbedder [1, 0]"
        and mem = sampleMemory and emb = "[1, 0]" and s = mixedStore
        and modelName = "''simple-hash-v1''" and config = DEFAULT_CAPTURE_CONFIG
        and sessionId = "''session''" and uuid = "''m9''" and now = 7,
        OF mixedStore_embeddings e]
      storeWithDeduplication_rejects [where embedder = "constEmbedder [1, 0]"
        and mem = sampleMemory and emb = "[1, 0]" and s = emptyStore
        and modelName = "''simple-hash-v1''" and config = DEFAULT_CAPTURE_CONFIG
        and sessionId = "''session''" and uuid = "''id1''" and now = 10
        and i = "''id1''" and ?s1.0 = "capturedOnce ''hello world'' [1, 0]"
        and sessionId' = "''session''" and uuid' = "''id2''" and now' = 20,
        OF emptyStore_embeddings e]
      first_capture [where embedder = "constEmbedder [1, 0]", OF e]
    by (simp add: mixedStore_embeddings emptyStore_embeddings e DEFAULT_CAPTURE_CONFIG_def
        lessThan_Suc numeral_2_eq_2)
qed

lemma cosineSimilarity_zero:
  "cosineSimilarity (replicate n 0) (replicate n 0) = Inr 0"
  by (simp add: cosineSimilarity_same_length)

lemma simpleHashEmbed_blank: "simpleHashEmbed zeroDigest 128 (e_content blankMemory) = Some (replicate 128 0)"
  by (simp add: simpleHashEmbed_def blankMemory_def hashToVector_blank blank_normalized)

text \<open>
  C5 (as stated) fails: the hash-based provider embeds a blank content as the all-zero
  vector, whose remapped similarity to itself is 0.5; captured twice with the default
  threshold 0.90, the content is stored twice, and the second capture returns an id.
\<close>

theorem blank_content_is_stored_twice:
  "storeWithDeduplication (simpleHashEmbed zeroDigest 128) ''simple-hash-v1'' DEFAULT_CAPTURE_CONFIG
       emptyStore blankMemory ''session'' ''id1'' 10
     = Inr (Some ''id1'', capturedOnce '' '' (replicate 128 0))
   \<and> storeWithDeduplication (simpleHashEmbed zeroDigest 128) ''simple-hash-v1'' DEFAULT_CAPTURE_CONFIG
       (capturedOnce '' '' (replicate 128 0)) blankMemory ''session'' ''id2'' 20
     = Inr (Some ''id2'', capturedTwice '' '' (replicate 128 0))"
proof (intro conjI)
  show "storeWithDeduplication (simpleHashEmbed zeroDigest 128) ''simple-hash-v1'' DEFAULT_CAPTURE_CONFIG
       emptyStore blankMemory ''session'' ''id1'' 10
     = Inr (Some ''id1'', capturedOnce '' '' (replicate 128 0))"
    unfolding storeWithDeduplication_unfold
      [where embedder = "simpleHashEmbed zeroDigest 128" and mem = blankMemory,
        OF emptyStore_embeddings simpleHashEmbed_blank]
    by (simp add: createMemory_def requireDb_def emptyStore_def next_rowid_def capturedOnce_def
        capturedRecord_def blankMemory_def orElse_def Let_def)
next
  have "\<not> findDuplicate (replicate 128 0) (deduplicationThreshold DEFAULT_CAPTURE_CONFIG)
           [(''id1'', replicate 128 0)]"
    by (simp add: cosineSimilarity_zero DEFAULT_CAPTURE_CONFIG_def)
  then show "storeWithDeduplication (simpleHashEmbed zeroDigest 128) ''simple-hash-v1''
       DEFAULT_CAPTURE_CONFIG (capturedOnce '' '' (replicate 128 0)) blankMemory ''session''
       ''id2'' 20
     = Inr (Some ''id2'', capturedTwice '' '' (replicate 128 0))"
    unfolding storeWithDeduplication_unfold
      [where embedder = "simpleHashEmbed zeroDigest 128" and mem = blankMemory,
        OF capturedOnce_embeddings simpleHashEmbed_blank]
    by (simp add: createMemory_def requireDb_def next_rowid_def capturedOnce_def
        capturedTwice_def capturedRecord_def blankMemory_def orElse_def Let_def)
qed

subsection \<open>The range of the scores that \<open>search\<close> returns\<close>
























end
